theory Spec2Isabelle
  imports Main
begin

section \<open>JavaScript values of \<^verbatim>\<open>src/connectors/http.ts\<close>\<close>

text \<open>
  A JavaScript string is modelled by a \<^typ>\<open>string\<close> whose characters are its code units;
  the model covers the strings whose code units are all below 256 (U+0000 to U+00FF).
  A \<^verbatim>\<open>Buffer\<close> is a list of bytes, also written as characters, so that an ASCII body
  reads as the text it carries.

  A number is modelled by an integer: the model covers the integer-valued numbers that
  JavaScript prints in positional notation (every safe integer); fractions, \<^verbatim>\<open>NaN\<close>
  and the infinities are outside it.

  \<^verbatim>\<open>TCommonRecord\<close> is a plain object whose values are scalars. The object is given
  by its own enumerable properties in the order \<^verbatim>\<open>Object.entries\<close> lists them; its
  keys are pairwise distinct. The source tests values for \<^verbatim>\<open>null\<close> and
  \<^verbatim>\<open>undefined\<close>, so both are values of the model.
\<close>

type_synonym buffer = "char list"

datatype scalar = SNull | SUndefined | SStr string | SNum int | SBool bool

type_synonym common_record = "(string \<times> scalar) list"

datatype jsval = JScalar scalar | JRecord common_record

datatype error =
    TypeError string
  | SyntaxError string
  | TransportError string

subsection \<open>Numbers and strings\<close>

definition digit36 :: "nat \<Rightarrow> char" where
  "digit36 d = ''0123456789abcdefghijklmnopqrstuvwxyz'' ! d"

text \<open>
  The digits of a natural number in a radix between 2 and 36, most significant first.
  The source converts with the radix 10 (the default of \<^verbatim>\<open>toString\<close>) and 36 only.
\<close>

function radix_digits :: "nat \<Rightarrow> nat \<Rightarrow> string" where
  "radix_digits b n =
     (if b < 2 \<or> 36 < b \<or> n < b then [digit36 (n mod 36)]
      else radix_digits b (n div b) @ [digit36 (n mod b)])"
  by pat_completeness auto
termination
  by (relation "measure (\<lambda>(b, n). n)") auto

declare radix_digits.simps [simp del]

text \<open>\<^verbatim>\<open>Number.prototype.toString(radix)\<close> on an integer.\<close>

definition number_toString :: "nat \<Rightarrow> int \<Rightarrow> string" where
  "number_toString b i =
     (if i < 0 then CHR ''-'' # radix_digits b (nat (- i)) else radix_digits b (nat i))"

text \<open>
  The string conversion of a scalar (\<^verbatim>\<open>String(v)\<close>, a template literal, the argument
  conversion of \<^verbatim>\<open>encodeURIComponent\<close>). The call \<^verbatim>\<open>v.toString()\<close>
  gives the same string on every value that is neither \<^verbatim>\<open>null\<close> nor
  \<^verbatim>\<open>undefined\<close>, and the source calls it on such values only.
\<close>

fun toString :: "scalar \<Rightarrow> string" where
  "toString SNull = ''null''"
| "toString SUndefined = ''undefined''"
| "toString (SStr s) = s"
| "toString (SNum n) = number_toString 10 n"
| "toString (SBool b) = (if b then ''true'' else ''false'')"

subsection \<open>Objects\<close>

text \<open>
  An object under construction is the list of its properties in creation order.
  Setting a key that exists changes the value in place; a new key goes to the end.
  (JavaScript enumerates keys that are array indices before the others; the theorems
  below are about lookups, which do not depend on the order.)
\<close>

fun obj_set :: "(string \<times> 'v) list \<Rightarrow> string \<Rightarrow> 'v \<Rightarrow> (string \<times> 'v) list" where
  "obj_set [] k v = [(k, v)]"
| "obj_set ((k', v') # ps) k v =
     (if k' = k then (k, v) # ps else (k', v') # obj_set ps k v)"

text \<open>
  The assignment \<^verbatim>\<open>h[k] = v\<close> of a string \<open>v\<close> on an ordinary object. The key
  \<^verbatim>\<open>__proto__\<close> names the accessor that the object inherits from
  \<^verbatim>\<open>Object.prototype\<close>: the assignment calls its setter, which ignores a string, and
  the object gets no property. Every other key becomes a property of the object (the
  other properties of \<^verbatim>\<open>Object.prototype\<close> are writable data properties, which an
  assignment shadows).
\<close>

definition obj_assign :: "(string \<times> string) list \<Rightarrow> string \<Rightarrow> string \<Rightarrow> (string \<times> string) list" where
  "obj_assign h k v = (if k = ''__proto__'' then h else obj_set h k v)"

text \<open>The spread \<^verbatim>\<open>{ ...a, ...b }\<close>, which defines each property of \<open>b\<close> on the copy.\<close>

definition spread :: "(string \<times> 'v) list \<Rightarrow> (string \<times> 'v) list \<Rightarrow> (string \<times> 'v) list" where
  "spread a b = foldl (\<lambda>h (k, v). obj_set h k v) a b"

section \<open>Request headers\<close>

definition isInvalidValue :: "scalar \<Rightarrow> bool" where
  "isInvalidValue v = (v = SNull \<or> v = SUndefined)"

fun isRecord :: "jsval \<Rightarrow> bool" where
  "isRecord (JRecord _) = True"
| "isRecord (JScalar _) = False"

fun entries :: "jsval \<Rightarrow> common_record" where
  "entries (JRecord es) = es"
| "entries (JScalar _) = []"

definition HEADERS :: "(string \<times> string) list" where
  "HEADERS = [(''accept'', ''*/*''), (''connection'', ''keep-alive'')]"

definition HEADERS_STATIC :: "(string \<times> string) list" where
  "HEADERS_STATIC = [(''user-agent'', ''AnyConn/0.0.1'')]"

definition formatHeader :: "jsval \<Rightarrow> (string \<times> string) list" where
  "formatHeader v =
     (let h = spread [] HEADERS;
          h = (if isRecord v
               then foldl (\<lambda>h (k, v). if \<not> isInvalidValue v then obj_assign h k (toString v) else h)
                      h (entries v)
               else h)
      in spread h HEADERS_STATIC)"

section \<open>Content types\<close>

record content_type =
  type :: string
  format :: "string option"
  charset :: string

text \<open>\<^verbatim>\<open>String.prototype.toLowerCase\<close> on code units below 256.\<close>

definition lower_char :: "char \<Rightarrow> char" where
  "lower_char c =
     (let n = of_char c :: nat
      in if (65 \<le> n \<and> n \<le> 90) \<or> (192 \<le> n \<and> n \<le> 222 \<and> n \<noteq> 215)
         then char_of (n + 32) else c)"

definition toLowerCase :: "string \<Rightarrow> string" where
  "toLowerCase s = map lower_char s"

text \<open>The class \<^verbatim>\<open>\s\<close> and the line terminators, which \<^verbatim>\<open>.\<close> does not match.\<close>

definition js_space :: "char \<Rightarrow> bool" where
  "js_space c = ((of_char c :: nat) \<in> {9, 10, 11, 12, 13, 32, 160})"

definition line_terminator :: "char \<Rightarrow> bool" where
  "line_terminator c = ((of_char c :: nat) \<in> {10, 13})"

text \<open>
  \<^verbatim>\<open>String.prototype.split\<close> with a pattern that matches one separator character
  and then, greedily, every following character of a class: \<^verbatim>\<open>/\;\s*/\<close> is
  \<open>CHR '';''\<close> with \<open>js_space\<close>, \<^verbatim>\<open>/\/+/\<close> is \<open>CHR ''/''\<close> with itself.
  The scan goes through the string once; \<open>acc\<close> holds the piece read so far, reversed.
\<close>

function js_split :: "char \<Rightarrow> (char \<Rightarrow> bool) \<Rightarrow> string \<Rightarrow> string \<Rightarrow> string list" where
  "js_split sep skip acc [] = [rev acc]"
| "js_split sep skip acc (c # cs) =
     (if c = sep then rev acc # js_split sep skip [] (dropWhile skip cs)
      else js_split sep skip (c # acc) cs)"
  by pat_completeness auto
termination
  by (relation "measure (\<lambda>(sep, skip, acc, s). length s)")
     (auto simp: le_imp_less_Suc length_dropWhile_le)

definition split_params :: "string \<Rightarrow> string list" where
  "split_params s = js_split (CHR '';'') js_space [] s"

definition split_slashes :: "string \<Rightarrow> string list" where
  "split_slashes s = js_split (CHR ''/'') (\<lambda>c. c = CHR ''/'') [] s"

text \<open>\<^verbatim>\<open>/^charset\=.+$/i.test(ch)\<close>: letters are compared without regard to case.\<close>

definition charset_test :: "string \<Rightarrow> bool" where
  "charset_test ch =
     (toLowerCase (take 8 ch) = ''charset=''
      \<and> drop 8 ch \<noteq> [] \<and> (\<forall>c \<in> set (drop 8 ch). \<not> line_terminator c))"

text \<open>\<^verbatim>\<open>ch.match(/^charset\=(.+)$/)\<close>: the first group, when the pattern matches.\<close>

definition charset_match :: "string \<Rightarrow> string option" where
  "charset_match ch =
     (if take 8 ch = ''charset='' \<and> drop 8 ch \<noteq> [] \<and> (\<forall>c \<in> set (drop 8 ch). \<not> line_terminator c)
      then Some (drop 8 ch) else None)"

definition getContentType :: "jsval \<Rightarrow> content_type" where
  "getContentType ct =
     (case ct of
        JScalar (SStr s) \<Rightarrow>
          if s = [] then \<lparr>type = ''text'', format = Some ''plain'', charset = ''utf-8''\<rparr>
          else
            let parts = split_params (toLowerCase s);
                t = hd parts;
                ch = (case parts of _ # x # _ \<Rightarrow> Some x | _ \<Rightarrow> None);
                cs =
                  (case ch of
                     None \<Rightarrow> ''utf-8''
                   | Some c \<Rightarrow>
                       if c \<noteq> [] \<and> charset_test c
                       then (case charset_match c of
                               Some m \<Rightarrow> if m \<noteq> [] then m else ''utf-8''
                             | None \<Rightarrow> ''utf-8'')
                       else ''utf-8'');
                pieces = split_slashes t
            in \<lparr>type = hd pieces,
                format = (case pieces of _ # f # _ \<Rightarrow> Some f | _ \<Rightarrow> None),
                charset = cs\<rparr>
      | _ \<Rightarrow> \<lparr>type = ''text'', format = Some ''plain'', charset = ''utf-8''\<rparr>)"

section \<open>Body encodings\<close>

definition join :: "string \<Rightarrow> string list \<Rightarrow> string" where
  "join sep xs = (case xs of [] \<Rightarrow> [] | x # r \<Rightarrow> x @ concat (map (\<lambda>y. sep @ y) r))"

text \<open>\<^verbatim>\<open>Buffer.from(string)\<close>: the UTF-8 bytes of the string.\<close>

definition utf8_unit :: "char \<Rightarrow> buffer" where
  "utf8_unit c =
     (let n = of_char c :: nat
      in if n < 128 then [c] else [char_of (192 + n div 64), char_of (128 + n mod 64)])"

definition Buffer_from :: "string \<Rightarrow> buffer" where
  "Buffer_from s = concat (map utf8_unit s)"

definition hex_upper :: "nat \<Rightarrow> char" where
  "hex_upper d = ''0123456789ABCDEF'' ! d"

definition hex_lower :: "nat \<Rightarrow> char" where
  "hex_lower d = ''0123456789abcdef'' ! d"

definition percent :: "char \<Rightarrow> string" where
  "percent b = (let n = of_char b :: nat in [CHR ''%'', hex_upper (n div 16), hex_upper (n mod 16)])"

definition uri_unescaped :: "char \<Rightarrow> bool" where
  "uri_unescaped c =
     (let n = of_char c :: nat
      in (65 \<le> n \<and> n \<le> 90) \<or> (97 \<le> n \<and> n \<le> 122) \<or> (48 \<le> n \<and> n \<le> 57)
         \<or> c \<in> set ''-_.!~*'()'')"

definition encodeURIComponent :: "string \<Rightarrow> string" where
  "encodeURIComponent s =
     concat (map (\<lambda>c. if uri_unescaped c then [c] else concat (map percent (utf8_unit c))) s)"

text \<open>\<^verbatim>\<open>JSON.stringify\<close> on a record of scalars.\<close>

definition json_escape :: "char \<Rightarrow> string" where
  \<open>json_escape c =
     (let n = of_char c :: nat
      in if c = CHR 0x22 then [CHR 0x5C, CHR 0x22]
         else if c = CHR 0x5C then [CHR 0x5C, CHR 0x5C]
         else if n = 8 then [CHR 0x5C, CHR ''b'']
         else if n = 12 then [CHR 0x5C, CHR ''f'']
         else if n = 10 then [CHR 0x5C, CHR ''n'']
         else if n = 13 then [CHR 0x5C, CHR ''r'']
         else if n = 9 then [CHR 0x5C, CHR ''t'']
         else if n < 32 then [CHR 0x5C, CHR ''u'', CHR ''0'', CHR ''0'', hex_lower (n div 16), hex_lower (n mod 16)]
         else [c])\<close>

definition json_quote :: "string \<Rightarrow> string" where
  "json_quote s = CHR 0x22 # concat (map json_escape s) @ [CHR 0x22]"

fun json_scalar :: "scalar \<Rightarrow> string option" where
  "json_scalar SUndefined = None"
| "json_scalar SNull = Some ''null''"
| "json_scalar (SStr s) = Some (json_quote s)"
| "json_scalar (SNum n) = Some (number_toString 10 n)"
| "json_scalar (SBool b) = Some (if b then ''true'' else ''false'')"

definition JSON_stringify :: "common_record \<Rightarrow> string" where
  "JSON_stringify es =
     ''{'' @ join '',''
        (concat (map (\<lambda>(k, v). case json_scalar v of
                                  None \<Rightarrow> []
                                | Some t \<Rightarrow> [json_quote k @ '':'' @ t]) es))
      @ ''}''"

section \<open>Building the request\<close>

datatype http_method = GET | POST

datatype data_type = Json | Form | Formdata

datatype transport = HTTP | HTTPS

record URL =
  protocol :: string
  host :: string
  pathname :: string
  searchParams :: "(string \<times> string) list"
  hash :: string

datatype url_arg = UrlString string | UrlObject URL

text \<open>
  \<^verbatim>\<open>THttpRequestOptions\<close>; the field \<open>httpMethod\<close> is the source's \<^verbatim>\<open>method\<close>.
  An absent option is \<open>None\<close>, an absent \<^verbatim>\<open>header\<close> or \<^verbatim>\<open>data\<close> is \<^verbatim>\<open>undefined\<close>.
\<close>

record options =
  url :: url_arg
  httpMethod :: "http_method option"
  header :: jsval
  data :: jsval
  dataType :: "data_type option"

text \<open>
  What one call reads from the clock and the random generator: \<^verbatim>\<open>Date.now()\<close>, and
  the texts \<^verbatim>\<open>Math.random().toString(36)\<close> of the two calls in the template
  (\<^verbatim>\<open>0.\<close> and the digits of the fraction).
\<close>

record ambient =
  Date_now :: int
  random_text1 :: string
  random_text2 :: string

record outgoing =
  via :: transport
  target :: URL
  verb :: http_method
  headers :: "(string \<times> string) list"
  body :: buffer

text \<open>\<^verbatim>\<open>URLSearchParams.set\<close>: the first pair of that name takes the value, the others go.\<close>

fun searchParams_set :: "string \<Rightarrow> string \<Rightarrow> (string \<times> string) list \<Rightarrow> (string \<times> string) list" where
  "searchParams_set k v [] = [(k, v)]"
| "searchParams_set k v ((k', v') # ps) =
     (if k' = k then (k, v) # filter (\<lambda>p. fst p \<noteq> k) ps
      else (k', v') # searchParams_set k v ps)"

definition boundary_token :: "ambient \<Rightarrow> string" where
  "boundary_token a =
     ''AnyConn'' @ number_toString 36 (Date_now a) @ drop 2 (random_text1 a) @ drop 2 (random_text2 a)"

text \<open>\<^verbatim>\<open>typeof url === 'string' ? new URL(url) : url\<close>\<close>

definition to_uri :: "(string \<Rightarrow> error + URL) \<Rightarrow> url_arg \<Rightarrow> error + URL" where
  "to_uri new_URL u = (case u of UrlString s \<Rightarrow> new_URL s | UrlObject x \<Rightarrow> Inr x)"

text \<open>
  Lines 64 to 118 of \<^verbatim>\<open>request\<close>: everything before the request is handed to the
  transport. \<open>new_URL\<close> is the URL parser, which throws on a string it cannot parse.
\<close>

definition request_build :: "(string \<Rightarrow> error + URL) \<Rightarrow> ambient \<Rightarrow> options \<Rightarrow> error + outgoing" where
  \<open>request_build new_URL a opts =
     (let m = (case httpMethod opts of None \<Rightarrow> GET | Some x \<Rightarrow> x);
          dt = (case dataType opts of None \<Rightarrow> Json | Some x \<Rightarrow> x)
      in case to_uri new_URL (url opts) of
           Inl e \<Rightarrow> Inl e
         | Inr uri \<Rightarrow>
             let H = (if protocol uri = ''https:'' then HTTPS else HTTP);
                 hs = formatHeader (header opts);
                 d = entries (data opts)
             in if isRecord (data opts) then
                  (if m = GET then
                     Inr \<lparr>via = H,
                          target = uri\<lparr>searchParams :=
                            foldl (\<lambda>q (key, val). if \<not> isInvalidValue val
                                                   then searchParams_set key (toString val) q else q)
                              (searchParams uri) d\<rparr>,
                          verb = m, headers = hs, body = []\<rparr>
                   else
                     let contentType = (case map_of hs ''content-type'' of
                                          None \<Rightarrow> ''application/json'' | Some c \<Rightarrow> c);
                         ct = getContentType (JScalar (SStr contentType))
                     in case dt of
                          Json \<Rightarrow>
                            Inr \<lparr>via = H, target = uri, verb = m,
                                 headers = obj_set hs ''content-type'' ''application/json'',
                                 body = Buffer_from (JSON_stringify d)\<rparr>
                        | Form \<Rightarrow>
                            Inr \<lparr>via = H, target = uri, verb = m,
                                 headers = obj_set hs ''content-type'' ''application/x-www-form-urlencoded'',
                                 body = Buffer_from (join ''&''
                                   (map (\<lambda>k. encodeURIComponent k @ ''=''
                                              @ encodeURIComponent (toString (the (map_of d k))))
                                      (map fst d)))\<rparr>
                        | Formdata \<Rightarrow>
                            let boundary = boundary_token a;
                                dataStr =
                                  concat (map (\<lambda>(key, val).
                                     ''--'' @ boundary @ ''\<newline>''
                                     @ ''Content-Disposition: form-data; name="'' @ key @ ''"\<newline>\<newline>''
                                     @ toString val @ ''\<newline>'') d)
                                  @ ''--'' @ boundary @ ''--''
                            in Inr \<lparr>via = H, target = uri, verb = m,
                                    headers = obj_set hs ''content-type''
                                                (''multipart/form-data; boundary='' @ boundary),
                                    body = Buffer_from dataStr\<rparr>)
                else Inr \<lparr>via = H, target = uri, verb = m, headers = hs, body = []\<rparr>)\<close>

text \<open>Lines 167 to 177: the body is written only when it has bytes.\<close>

definition written :: "outgoing \<Rightarrow> buffer option" where
  "written r = (if length (body r) > 0 then Some (body r) else None)"

section \<open>The response and the promise\<close>

text \<open>
  The platform functions the module calls and does not define: the URL parser, the
  decoder \<^verbatim>\<open>Buffer.prototype.toString(encoding)\<close> (it throws on an encoding it
  does not know) and \<^verbatim>\<open>JSON.parse\<close> (it throws on a text that is not JSON).
  \<open>'s\<close> is the type of decoded strings, \<open>'j\<close> the type of JSON values.
\<close>

record ('s, 'j) platform =
  new_URL :: "string \<Rightarrow> error + URL"
  Buffer_toString :: "string \<Rightarrow> buffer \<Rightarrow> error + 's"
  JSON_parse :: "'s \<Rightarrow> error + 'j"

record response =
  res_statusCode :: "int option"
  res_headers :: "(string \<times> string) list"

datatype ('s, 'j) payload = Parsed 'j | Text 's | Bytes buffer

record ('s, 'j) result =
  statusCode :: int
  payload :: "('s, 'j) payload"
  result_headers :: "(string \<times> string) list"

datatype ('s, 'j) promise = Pending | Fulfilled "('s, 'j) result" | Rejected error

text \<open>A promise settles once; later calls of \<^verbatim>\<open>resolve\<close> and \<^verbatim>\<open>reject\<close> do nothing.\<close>

fun resolve :: "('s, 'j) promise \<Rightarrow> ('s, 'j) result \<Rightarrow> ('s, 'j) promise" where
  "resolve Pending r = Fulfilled r"
| "resolve p r = p"

fun reject :: "('s, 'j) promise \<Rightarrow> error \<Rightarrow> ('s, 'j) promise" where
  "reject Pending e = Rejected e"
| "reject p e = p"

text \<open>
  The state of one call: the chunks received, the promise, and the exception that left
  an event listener, if one did. Such an exception is thrown into the event loop: no
  handler of the promise sees it.
\<close>

record ('s, 'j) call =
  chunks :: "buffer list"
  promise :: "('s, 'j) promise"
  uncaught :: "error option"

datatype res_event = OnData buffer | OnError error | OnEnd

text \<open>\<^verbatim>\<open>res.statusCode || 0\<close>\<close>

definition status_or_0 :: "int option \<Rightarrow> int" where
  "status_or_0 c = (case c of None \<Rightarrow> 0 | Some n \<Rightarrow> if n = 0 then 0 else n)"

text \<open>
  \<^verbatim>\<open>const { ['content-type']: contentType } = res.headers\<close>: the header value, a
  string, or \<^verbatim>\<open>undefined\<close> when the response has no such header.
\<close>

definition res_contentType :: "response \<Rightarrow> jsval" where
  "res_contentType res =
     (case map_of (res_headers res) ''content-type'' of
        None \<Rightarrow> JScalar SUndefined
      | Some c \<Rightarrow> JScalar (SStr c))"

text \<open>
  The listener of \<^verbatim>\<open>end\<close> (lines 135 to 159). The argument of \<^verbatim>\<open>resolve\<close> is
  evaluated first: when the decoder or the parser throws, \<^verbatim>\<open>resolve\<close> is not called
  and the exception leaves the listener.
\<close>

definition request_end :: "('s, 'j) platform \<Rightarrow> response \<Rightarrow> ('s, 'j) call \<Rightarrow> ('s, 'j) call" where
  "request_end P res st =
     (let d = concat (chunks st);
          contentType = res_contentType res;
          t = getContentType contentType
      in if format t = Some ''json'' then
           (case Buffer_toString P (charset t) d of
              Inl e \<Rightarrow> st\<lparr>uncaught := Some e\<rparr>
            | Inr s \<Rightarrow>
                (case JSON_parse P s of
                   Inl e \<Rightarrow> st\<lparr>uncaught := Some e\<rparr>
                 | Inr v \<Rightarrow>
                     st\<lparr>promise := resolve (promise st)
                          \<lparr>statusCode = status_or_0 (res_statusCode res), payload = Parsed v,
                           result_headers = res_headers res\<rparr>\<rparr>))
         else if type t = ''text'' then
           (case Buffer_toString P (charset t) d of
              Inl e \<Rightarrow> st\<lparr>uncaught := Some e\<rparr>
            | Inr s \<Rightarrow>
                st\<lparr>promise := resolve (promise st)
                     \<lparr>statusCode = status_or_0 (res_statusCode res), payload = Text s,
                      result_headers = res_headers res\<rparr>\<rparr>)
         else
           st\<lparr>promise := resolve (promise st)
                \<lparr>statusCode = status_or_0 (res_statusCode res), payload = Bytes d,
                 result_headers = res_headers res\<rparr>\<rparr>)"

text \<open>The three listeners on the response (lines 127 to 159).\<close>

fun on_res_event :: "('s, 'j) platform \<Rightarrow> response \<Rightarrow> ('s, 'j) call \<Rightarrow> res_event \<Rightarrow> ('s, 'j) call" where
  "on_res_event P res st (OnData d) = st\<lparr>chunks := chunks st @ [d]\<rparr>"
| "on_res_event P res st (OnError e) = st\<lparr>promise := reject (promise st) e\<rparr>"
| "on_res_event P res st OnEnd = request_end P res st"

text \<open>
  What the transport does with a request: it fails (the \<^verbatim>\<open>error\<close> event of the
  request, or the error given to the callback of \<^verbatim>\<open>write\<close>), or it delivers a response
  and then the events of that response.
\<close>

datatype exchange = Failed error | Answered response "res_event list"

definition fresh :: "('s, 'j) call" where
  "fresh = \<lparr>chunks = [], promise = Pending, uncaught = None\<rparr>"

text \<open>
  \<^verbatim>\<open>request\<close>: the request built, if the URL could be parsed, and the state of the call
  after the events. An exception in the executor of the promise rejects it.
\<close>

definition request ::
  "('s, 'j) platform \<Rightarrow> ambient \<Rightarrow> (outgoing \<Rightarrow> exchange) \<Rightarrow> options \<Rightarrow> outgoing option \<times> ('s, 'j) call" where
  "request P a net opts =
     (case request_build (new_URL P) a opts of
        Inl e \<Rightarrow> (None, fresh\<lparr>promise := Rejected e\<rparr>)
      | Inr out \<Rightarrow>
          (Some out,
           case net out of
             Failed e \<Rightarrow> fresh\<lparr>promise := reject Pending e\<rparr>
           | Answered res evs \<Rightarrow> foldl (on_res_event P res) fresh evs))"

datatype entry_arg = BareString string | Options options

text \<open>The default export (lines 180 to 186).\<close>

definition default_export ::
  "('s, 'j) platform \<Rightarrow> ambient \<Rightarrow> (outgoing \<Rightarrow> exchange) \<Rightarrow> entry_arg \<Rightarrow> outgoing option \<times> ('s, 'j) call" where
  "default_export P a net arg =
     (case arg of
        BareString s \<Rightarrow>
          request P a net
            \<lparr>url = UrlString s, httpMethod = None, header = JScalar SUndefined,
             data = JScalar SUndefined, dataType = None\<rparr>
      | Options opts \<Rightarrow> request P a net opts)"

section \<open>Reference definitions\<close>


subsection \<open>Example inputs\<close>

definition example_url :: URL where
  "example_url =
     \<lparr>protocol = ''http:'', host = ''h'', pathname = ''/p'',
      searchParams = [(''a'', ''0''), (''z'', ''9''), (''a'', ''5'')], hash = []\<rparr>"

definition example_ambient :: ambient where
  "example_ambient =
     \<lparr>Date_now = 1700000000000, random_text1 = ''0.4fzyo82mvyr'', random_text2 = ''0.9x8b7c''\<rparr>"

text \<open>A URL parser that accepts nothing, for the examples that pass a parsed URL.\<close>

definition no_parser :: "string \<Rightarrow> error + URL" where
  "no_parser s = Inl (TypeError ''Invalid URL'')"

text \<open>
  A platform for the examples. Its decoder knows the encoding \<^verbatim>\<open>utf-8\<close> alone and
  passes the bytes through (the examples have ASCII bodies); its parser reads the JSON
  literals \<^verbatim>\<open>true\<close>, \<^verbatim>\<open>false\<close> and \<^verbatim>\<open>null\<close> and throws on every other
  text. The theorems hold for every platform; only the examples use this one.
\<close>

definition example_platform :: "(string, bool option) platform" where
  "example_platform =
     \<lparr>new_URL = no_parser,
      Buffer_toString = (\<lambda>enc b. if enc = ''utf-8'' then Inr b
                                  else Inl (TypeError (''Unknown encoding: '' @ enc))),
      JSON_parse = (\<lambda>s. if s = ''true'' then Inr (Some True)
                         else if s = ''false'' then Inr (Some False)
                         else if s = ''null'' then Inr None
                         else Inl (SyntaxError ''Unexpected token''))\<rparr>"

text \<open>
  The content-type descriptor, read off the lower-cased header value \<open>l\<close>: the first
  segment is \<open>l\<close> up to its first \<^verbatim>\<open>;\<close>; the type is that segment up to its
  first \<^verbatim>\<open>/\<close>; the format, when the segment has a \<^verbatim>\<open>/\<close>, is what stands between
  the first run of \<^verbatim>\<open>/\<close> and the next \<^verbatim>\<open>/\<close>; the charset comes from the first
  parameter segment alone (what follows the first \<^verbatim>\<open>;\<close> and its white space, up to
  the next \<^verbatim>\<open>;\<close>), when that segment is \<^verbatim>\<open>charset=\<close> and a non-empty rest
  without line breaks.
\<close>

definition up_to :: "char \<Rightarrow> string \<Rightarrow> string" where
  "up_to c s = takeWhile (\<lambda>x. x \<noteq> c) s"

definition past :: "char \<Rightarrow> string \<Rightarrow> string option" where
  "past c s = (case dropWhile (\<lambda>x. x \<noteq> c) s of [] \<Rightarrow> None | _ # r \<Rightarrow> Some r)"

definition text_plain_utf8 :: content_type where
  "text_plain_utf8 = \<lparr>type = ''text'', format = Some ''plain'', charset = ''utf-8''\<rparr>"

definition charset_of_segment :: "string \<Rightarrow> string" where
  "charset_of_segment p =
     (if take 8 p = ''charset='' \<and> drop 8 p \<noteq> [] \<and> list_all (\<lambda>c. \<not> line_terminator c) (drop 8 p)
      then drop 8 p else ''utf-8'')"

definition descriptor_of :: "string \<Rightarrow> content_type" where
  "descriptor_of s =
     (let l = toLowerCase s; seg = up_to (CHR '';'') l
      in \<lparr>type = up_to (CHR ''/'') seg,
          format = (case past (CHR ''/'') seg of
                      None \<Rightarrow> None
                    | Some r \<Rightarrow> Some (up_to (CHR ''/'') (dropWhile (\<lambda>x. x = CHR ''/'') r))),
          charset = (case past (CHR '';'') l of
                       None \<Rightarrow> ''utf-8''
                     | Some r \<Rightarrow> charset_of_segment (up_to (CHR '';'') (dropWhile js_space r)))\<rparr>)"

text \<open>
  The urlencoded form body, read off the pairs of the mapping: \<open>key=value\<close> with
  both sides percent-encoded, joined by \<^verbatim>\<open>&\<close>.
\<close>

definition form_body :: "common_record \<Rightarrow> string" where
  "form_body es =
     join ''&'' (map (\<lambda>(k, v). encodeURIComponent k @ ''='' @ encodeURIComponent (toString v)) es)"

text \<open>The multipart body for a boundary: one part for each pair, then the closing line.\<close>

fun multipart_parts :: "string \<Rightarrow> common_record \<Rightarrow> string" where
  "multipart_parts b [] = []"
| "multipart_parts b ((k, v) # es) =
     ''--'' @ b @ ''\<newline>'' @ ''Content-Disposition: form-data; name='' @ [CHR 0x22] @ k @ [CHR 0x22]
     @ ''\<newline>\<newline>'' @ toString v @ ''\<newline>'' @ multipart_parts b es"

definition multipart_body :: "string \<Rightarrow> common_record \<Rightarrow> string" where
  "multipart_body b es = multipart_parts b es @ ''--'' @ b @ ''--''"

text \<open>The value of a string of digits in a radix, most significant digit first.\<close>

definition digit_value :: "char \<Rightarrow> nat" where
  "digit_value c =
     (let n = of_char c :: nat in if 48 \<le> n \<and> n \<le> 57 then n - 48 else n - 87)"

definition radix_value :: "nat \<Rightarrow> string \<Rightarrow> nat" where
  "radix_value b s = foldl (\<lambda>acc c. acc * b + digit_value c) 0 s"

text \<open>The pairs of a mapping that a GET writes into the query: those with a value.\<close>

definition query_pairs :: "common_record \<Rightarrow> (string \<times> string) list" where
  "query_pairs es = map (\<lambda>(k, v). (k, toString v)) (filter (\<lambda>(k, v). \<not> isInvalidValue v) es)"

text \<open>The values a query has under a name, in order.\<close>

definition named :: "string \<Rightarrow> (string \<times> string) list \<Rightarrow> string list" where
  "named k q = map snd (filter (\<lambda>p. fst p = k) q)"

text \<open>A POST to the example URL whose caller sets a \<^verbatim>\<open>content-type\<close> of their own.\<close>

definition example_post :: "jsval \<Rightarrow> data_type option \<Rightarrow> options" where
  "example_post d dt =
     \<lparr>url = UrlObject example_url, httpMethod = Some POST,
      header = JRecord [(''content-type'', SStr ''text/plain'')], data = d, dataType = dt\<rparr>"

text \<open>A call that leaves the method to its default, with data for the example URL.\<close>

definition example_get :: "jsval \<Rightarrow> options" where
  "example_get d =
     \<lparr>url = UrlObject example_url, httpMethod = None, header = JScalar SUndefined,
      data = d, dataType = None\<rparr>"

section \<open>Header lemmas\<close>

lemma map_of_obj_set: "map_of (obj_set h k v) = (map_of h)(k \<mapsto> v)"
  by (induction h) (auto simp: fun_eq_iff)

lemma spread_Nil: "spread a [] = a"
  by (simp add: spread_def)

lemma spread_Cons: "spread a ((k, v) # b) = spread (obj_set a k v) b"
  by (simp add: spread_def)







lemma radix_digits_small:
  "2 \<le> b \<Longrightarrow> b \<le> 36 \<Longrightarrow> n < b \<Longrightarrow> radix_digits b n = [digit36 n]"
  by (subst radix_digits.simps) simp

lemma radix_digits_step:
  "2 \<le> b \<Longrightarrow> b \<le> 36 \<Longrightarrow> b \<le> n \<Longrightarrow>
   radix_digits b n = radix_digits b (n div b) @ [digit36 (n mod b)]"
  by (subst radix_digits.simps) simp

section \<open>Claims about the request headers\<close>




section \<open>Claims about requests without an encoded body\<close>

text \<open>
  Claim C8. A POST whose data is a raw string: the data is not a mapping, so no body is
  encoded. The request goes out with an empty body, nothing is written, and the headers
  are those of \<open>formatHeader\<close>: the \<^verbatim>\<open>content-type\<close> is not forced.
\<close>

theorem post_raw_string_sends_no_body:
  assumes "httpMethod opts = Some POST" and "data opts = JScalar (SStr raw)"
    and "to_uri parse (url opts) = Inr uri"
  shows "request_build parse a opts =
           Inr \<lparr>via = (if protocol uri = ''https:'' then HTTPS else HTTP), target = uri,
                verb = POST, headers = formatHeader (header opts), body = []\<rparr>
         \<and> written \<lparr>via = (if protocol uri = ''https:'' then HTTPS else HTTP), target = uri,
                verb = POST, headers = formatHeader (header opts), body = []\<rparr> = None"
  using assms by (simp add: request_build_def written_def)

text \<open>The theorem at a POST of the string \<^verbatim>\<open>raw body\<close> with no caller headers.\<close>

theorem post_raw_string_sends_no_body_witness:
  "httpMethod \<lparr>url = UrlObject example_url, httpMethod = Some POST, header = JScalar SUndefined,
            data = JScalar (SStr ''raw body''), dataType = Some Form\<rparr> = Some POST
   \<and> to_uri no_parser (UrlObject example_url) = Inr example_url
   \<and> request_build no_parser example_ambient
         \<lparr>url = UrlObject example_url, httpMethod = Some POST, header = JScalar SUndefined,
          data = JScalar (SStr ''raw body''), dataType = Some Form\<rparr>
       = Inr \<lparr>via = HTTP, target = example_url, verb = POST,
              headers = [(''accept'', ''*/*''), (''connection'', ''keep-alive''),
                         (''user-agent'', ''AnyConn/0.0.1'')],
              body = []\<rparr>
   \<and> map_of [(''accept'', ''*/*''), (''connection'', ''keep-alive''),
              (''user-agent'', ''AnyConn/0.0.1'')] ''content-type'' = None"
  using post_raw_string_sends_no_body
    [of "\<lparr>url = UrlObject example_url, httpMethod = Some POST, header = JScalar SUndefined,
          data = JScalar (SStr ''raw body''), dataType = Some Form\<rparr>"
        "''raw body''" no_parser example_url example_ambient]
  by (simp add: to_uri_def example_url_def formatHeader_def spread_Nil spread_Cons
      HEADERS_def HEADERS_STATIC_def)

text \<open>
  Claim C10. Calling the default export with the bare string \<open>s\<close> is calling it with the
  options \<^verbatim>\<open>{ url: s }\<close>, and that is \<open>request\<close> with every default written
  out: GET as the verb, dataType json, no caller headers and no data. The request that goes out,
  when \<open>s\<close> parses, is a GET of the parsed URL with the fixed headers and no body.
\<close>

theorem bare_string_is_default_options:
  "default_export P a net (BareString s) =
     default_export P a net (Options \<lparr>url = UrlString s, httpMethod = None, header = JScalar SUndefined,
                                      data = JScalar SUndefined, dataType = None\<rparr>)
   \<and> default_export P a net (BareString s) =
     request P a net \<lparr>url = UrlString s, httpMethod = Some GET, header = JScalar SUndefined,
                      data = JScalar SUndefined, dataType = Some Json\<rparr>
   \<and> request_build (new_URL P) a \<lparr>url = UrlString s, httpMethod = None, header = JScalar SUndefined,
                      data = JScalar SUndefined, dataType = None\<rparr> =
     (case new_URL P s of
        Inl e \<Rightarrow> Inl e
      | Inr uri \<Rightarrow> Inr \<lparr>via = (if protocol uri = ''https:'' then HTTPS else HTTP), target = uri, verb = GET,
                   headers = [(''accept'', ''*/*''), (''connection'', ''keep-alive''),
                              (''user-agent'', ''AnyConn/0.0.1'')],
                   body = []\<rparr>)"
  by (simp add: default_export_def request_def request_build_def to_uri_def formatHeader_def
      spread_Nil spread_Cons HEADERS_def HEADERS_STATIC_def split: sum.splits)

section \<open>Claims about the content-type descriptor\<close>

lemma js_split_unfold:
  "js_split sep skip acc s =
     (rev acc @ up_to sep s) #
     (case past sep s of None \<Rightarrow> [] | Some r \<Rightarrow> js_split sep skip [] (dropWhile skip r))"
  by (induction s arbitrary: acc) (auto simp: up_to_def past_def)

lemma js_split_hd: "hd (js_split sep skip [] s) = up_to sep s"
  by (subst js_split_unfold) simp

lemma js_split_second:
  "(case js_split sep skip [] s of _ # x # _ \<Rightarrow> Some x | _ \<Rightarrow> None) =
     (case past sep s of None \<Rightarrow> None | Some r \<Rightarrow> Some (up_to sep (dropWhile skip r)))"
  by (subst js_split_unfold, cases "past sep s"; simp) (subst js_split_unfold, simp)

lemma charset_prefix_lower: "take 8 c = ''charset='' \<Longrightarrow> toLowerCase (take 8 c) = ''charset=''"
  by (simp add: toLowerCase_def lower_char_def)

lemma charset_steps:
  "(if c \<noteq> [] \<and> charset_test c
    then (case charset_match c of Some m \<Rightarrow> if m \<noteq> [] then m else ''utf-8'' | None \<Rightarrow> ''utf-8'')
    else ''utf-8'') = charset_of_segment c"
  using charset_prefix_lower [of c]
  by (auto simp: charset_test_def charset_match_def charset_of_segment_def list_all_iff)

text \<open>
  Claim C2, as amended. For a content-type value that is a non-empty string, the
  descriptor is derived by lower-casing the value and splitting on \<^verbatim>\<open>;\<close>: the type is
  the part of the first segment before its first \<^verbatim>\<open>/\<close>, the format is the part
  between the first run of \<^verbatim>\<open>/\<close> and the next \<^verbatim>\<open>/\<close> (there is no format when
  the segment has no \<^verbatim>\<open>/\<close>), and the charset is taken from the first parameter
  segment only, when it reads \<^verbatim>\<open>charset=\<close> and a non-empty rest, and is
  \<^verbatim>\<open>utf-8\<close> otherwise. When the value is absent, not a string, or the empty string, the
  descriptor is \<^verbatim>\<open>{text, plain, utf-8}\<close>.
\<close>

theorem getContentType_descriptor:
  "(s \<noteq> [] \<longrightarrow> getContentType (JScalar (SStr s)) = descriptor_of s)
   \<and> getContentType (JScalar (SStr [])) = text_plain_utf8
   \<and> getContentType (JScalar SUndefined) = text_plain_utf8
   \<and> getContentType (JScalar SNull) = text_plain_utf8
   \<and> getContentType (JScalar (SNum n)) = text_plain_utf8
   \<and> getContentType (JScalar (SBool b)) = text_plain_utf8
   \<and> getContentType (JRecord es) = text_plain_utf8"
proof -
  have "getContentType (JScalar (SStr s)) = descriptor_of s" if "s \<noteq> []"
    using that
    by (simp add: getContentType_def descriptor_of_def Let_def split_params_def split_slashes_def
        js_split_hd js_split_second charset_steps split: option.splits)
  then show ?thesis
    by (simp add: getContentType_def text_plain_utf8_def)
qed

text \<open>The theorem at a header in mixed case with a charset parameter, and at an absent header.\<close>

theorem getContentType_descriptor_witness:
  "''Application/JSON; Charset=UTF-16LE'' \<noteq> []
   \<and> getContentType (JScalar (SStr ''Application/JSON; Charset=UTF-16LE''))
       = \<lparr>type = ''application'', format = Some ''json'', charset = ''utf-16le''\<rparr>
   \<and> getContentType (JScalar SUndefined)
       = \<lparr>type = ''text'', format = Some ''plain'', charset = ''utf-8''\<rparr>"
proof -
  have d: "descriptor_of ''Application/JSON; Charset=UTF-16LE''
             = \<lparr>type = ''application'', format = Some ''json'', charset = ''utf-16le''\<rparr>"
    by code_simp
  show ?thesis
    using getContentType_descriptor [of "''Application/JSON; Charset=UTF-16LE''"] d
    by (simp add: text_plain_utf8_def)
qed

text \<open>
  Claim C2 as stated fails twice. A \<^verbatim>\<open>charset=\<close> in the second parameter segment is
  not extracted. And a value that is malformed (no \<^verbatim>\<open>/\<close>) does not give the default
  descriptor: its type is the value itself and it has no format.
\<close>

theorem getContentType_descriptor_counterexample:
  "getContentType (JScalar (SStr ''text/html; x=1; charset=latin1''))
     = \<lparr>type = ''text'', format = Some ''html'', charset = ''utf-8''\<rparr>
   \<and> getContentType (JScalar (SStr ''garbage''))
     = \<lparr>type = ''garbage'', format = None, charset = ''utf-8''\<rparr>"
  by code_simp

section \<open>Claims about the body of a POST\<close>

lemma Buffer_from_nonempty: "s \<noteq> [] \<Longrightarrow> Buffer_from s \<noteq> []"
  by (cases s) (auto simp: Buffer_from_def utf8_unit_def Let_def)

lemma post_build:
  assumes "httpMethod opts = Some POST" and "data opts = JRecord es"
    and "to_uri parse (url opts) = Inr uri"
  shows "request_build parse a opts =
    (let hs = formatHeader (header opts); H = (if protocol uri = ''https:'' then HTTPS else HTTP)
     in case (case dataType opts of None \<Rightarrow> Json | Some x \<Rightarrow> x) of
       Json \<Rightarrow> Inr \<lparr>via = H, target = uri, verb = POST,
                   headers = obj_set hs ''content-type'' ''application/json'',
                   body = Buffer_from (JSON_stringify es)\<rparr>
     | Form \<Rightarrow> Inr \<lparr>via = H, target = uri, verb = POST,
                   headers = obj_set hs ''content-type'' ''application/x-www-form-urlencoded'',
                   body = Buffer_from (join ''&''
                            (map (\<lambda>k. encodeURIComponent k @ ''=''
                                       @ encodeURIComponent (toString (the (map_of es k))))
                               (map fst es)))\<rparr>
     | Formdata \<Rightarrow> Inr \<lparr>via = H, target = uri, verb = POST,
                   headers = obj_set hs ''content-type''
                               (''multipart/form-data; boundary='' @ boundary_token a),
                   body = Buffer_from (concat (map (\<lambda>(key, val).
                                     ''--'' @ boundary_token a @ ''\<newline>''
                                     @ ''Content-Disposition: form-data; name='' @ [CHR 0x22] @ key @ [CHR 0x22] @ ''\<newline>\<newline>''
                                     @ toString val @ ''\<newline>'') es)
                                  @ ''--'' @ boundary_token a @ ''--'')\<rparr>)"
  using assms by (simp add: request_build_def Let_def split: data_type.splits)

lemma form_pairs_lookup:
  assumes "distinct (map fst es)"
  shows "map (\<lambda>k. encodeURIComponent k @ ''='' @ encodeURIComponent (toString (the (map_of es k))))
           (map fst es)
         = map (\<lambda>(k, v). encodeURIComponent k @ ''='' @ encodeURIComponent (toString v)) es"
proof -
  have "map_of es (fst p) = Some (snd p)" if "p \<in> set es" for p
    using assms that by (cases p) simp
  then show ?thesis by (auto simp: case_prod_beta)
qed

lemma multipart_parts_concat:
  "concat (map (\<lambda>(key, val).
       ''--'' @ b @ ''\<newline>''
       @ ''Content-Disposition: form-data; name='' @ [CHR 0x22] @ key @ [CHR 0x22] @ ''\<newline>\<newline>''
       @ toString val @ ''\<newline>'') es) = multipart_parts b es"
  by (induction es) auto

lemma digit_value_digit36_all: "\<forall>d \<in> set [0..<36]. digit_value (digit36 d) = d"
  by code_simp

lemma digit_value_digit36: "d < 36 \<Longrightarrow> digit_value (digit36 d) = d"
  using digit_value_digit36_all by simp

lemma radix_value_snoc: "radix_value b (s @ [c]) = radix_value b s * b + digit_value c"
  by (simp add: radix_value_def)

lemma radix_value_digits:
  "2 \<le> b \<Longrightarrow> b \<le> 36 \<Longrightarrow> radix_value b (radix_digits b n) = n"
proof (induction b n rule: radix_digits.induct)
  case (1 b n)
  show ?case
  proof (cases "n < b")
    case True
    with 1 show ?thesis
      by (simp add: radix_digits_small radix_value_def digit_value_digit36)
  next
    case False
    with 1 have "radix_value b (radix_digits b (n div b)) = n div b" by simp
    moreover have "n mod b < b" using 1(2) by simp
    then have "n mod b < 36" using 1(3) by simp
    ultimately show ?thesis
      using False 1(2,3) by (simp add: radix_digits_step radix_value_snoc digit_value_digit36)
  qed
qed

text \<open>
  Claim C5. A POST with a mapping as data and dataType \<^verbatim>\<open>json\<close>, given or by default:
  the body is the UTF-8 bytes of the JSON serialization of the data and is written, the
  \<^verbatim>\<open>content-type\<close> that goes out is \<^verbatim>\<open>application/json\<close> whatever the caller
  supplied, and every other header is as \<open>formatHeader\<close> built it.
\<close>

theorem post_json_body:
  assumes "httpMethod opts = Some POST" and "data opts = JRecord es"
    and "dataType opts = None \<or> dataType opts = Some Json"
    and "to_uri parse (url opts) = Inr uri"
  shows "\<exists>out. request_build parse a opts = Inr out
           \<and> body out = Buffer_from (JSON_stringify es)
           \<and> written out = Some (body out)
           \<and> map_of (headers out) ''content-type'' = Some ''application/json''
           \<and> (\<forall>k. k \<noteq> ''content-type'' \<longrightarrow>
                 map_of (headers out) k = map_of (formatHeader (header opts)) k)"
proof -
  have "JSON_stringify es \<noteq> []" by (simp add: JSON_stringify_def)
  then have "Buffer_from (JSON_stringify es) \<noteq> []" by (rule Buffer_from_nonempty)
  with assms(3) post_build [OF assms(1,2,4), of a] show ?thesis
    by (auto simp: Let_def written_def map_of_obj_set)
qed

text \<open>
  The theorem at the data \<^verbatim>\<open>{a: 1}\<close>, where the caller asked for
  \<^verbatim>\<open>content-type: text/plain\<close>.
\<close>

theorem post_json_body_witness:
  \<open>httpMethod (example_post (JRecord [(''a'', SNum 1)]) None) = Some POST
   \<and> data (example_post (JRecord [(''a'', SNum 1)]) None) = JRecord [(''a'', SNum 1)]
   \<and> dataType (example_post (JRecord [(''a'', SNum 1)]) None) = None
   \<and> to_uri no_parser (url (example_post (JRecord [(''a'', SNum 1)]) None)) = Inr example_url
   \<and> request_build no_parser example_ambient (example_post (JRecord [(''a'', SNum 1)]) None)
       = Inr \<lparr>via = HTTP, target = example_url, verb = POST,
              headers = [(''accept'', ''*/*''), (''connection'', ''keep-alive''),
                         (''content-type'', ''application/json''),
                         (''user-agent'', ''AnyConn/0.0.1'')],
              body = ''{"a":1}''\<rparr>\<close>
proof -
  have ev: \<open>request_build no_parser example_ambient (example_post (JRecord [(''a'', SNum 1)]) None)
       = Inr \<lparr>via = HTTP, target = example_url, verb = POST,
              headers = [(''accept'', ''*/*''), (''connection'', ''keep-alive''),
                         (''content-type'', ''application/json''),
                         (''user-agent'', ''AnyConn/0.0.1'')],
              body = ''{"a":1}''\<rparr>\<close>
    by code_simp
  show ?thesis
    using post_json_body [of "example_post (JRecord [(''a'', SNum 1)]) None" "[(''a'', SNum 1)]"
        no_parser example_url example_ambient] ev
    by (simp add: example_post_def to_uri_def)
qed

text \<open>
  Claim C6. A POST with a mapping as data (its keys pairwise distinct) and dataType
  \<^verbatim>\<open>form\<close>: the body is the UTF-8 bytes of the pairs \<open>key=value\<close>, both sides
  percent-encoded, joined by \<^verbatim>\<open>&\<close> in the order of the mapping, and the
  \<^verbatim>\<open>content-type\<close> that goes out is \<^verbatim>\<open>application/x-www-form-urlencoded\<close>.
\<close>

theorem post_form_body:
  assumes "httpMethod opts = Some POST" and "data opts = JRecord es"
    and "dataType opts = Some Form"
    and "to_uri parse (url opts) = Inr uri"
    and "distinct (map fst es)"
  shows "\<exists>out. request_build parse a opts = Inr out
           \<and> body out = Buffer_from (form_body es)
           \<and> map_of (headers out) ''content-type'' = Some ''application/x-www-form-urlencoded''
           \<and> (\<forall>k. k \<noteq> ''content-type'' \<longrightarrow>
                 map_of (headers out) k = map_of (formatHeader (header opts)) k)"
proof -
  have eq: "join ''&'' (map (\<lambda>k. encodeURIComponent k @ ''=''
                                  @ encodeURIComponent (toString (the (map_of es k))))
                          (map fst es)) = form_body es"
    by (simp only: form_body_def form_pairs_lookup [OF assms(5)])
  have out: "request_build parse a opts =
    Inr \<lparr>via = (if protocol uri = ''https:'' then HTTPS else HTTP), target = uri, verb = POST,
         headers = obj_set (formatHeader (header opts)) ''content-type''
                     ''application/x-www-form-urlencoded'',
         body = Buffer_from (form_body es)\<rparr>"
    using post_build [OF assms(1,2,4), of a]
    by (simp only: Let_def assms(3) option.case data_type.case eq)
  show ?thesis
    by (simp add: out map_of_obj_set)
qed

text \<open>The theorem at the data \<^verbatim>\<open>{"a b": "c&d"}\<close>: the body is \<^verbatim>\<open>a%20b=c%26d\<close>.\<close>

theorem post_form_body_witness:
  \<open>httpMethod (example_post (JRecord [(''a b'', SStr ''c&d'')]) (Some Form)) = Some POST
   \<and> dataType (example_post (JRecord [(''a b'', SStr ''c&d'')]) (Some Form)) = Some Form
   \<and> distinct (map fst [(''a b'', SStr ''c&d'')])
   \<and> to_uri no_parser (url (example_post (JRecord [(''a b'', SStr ''c&d'')]) (Some Form))) = Inr example_url
   \<and> form_body [(''a b'', SStr ''c&d'')] = ''a%20b=c%26d''
   \<and> request_build no_parser example_ambient (example_post (JRecord [(''a b'', SStr ''c&d'')]) (Some Form))
       = Inr \<lparr>via = HTTP, target = example_url, verb = POST,
              headers = [(''accept'', ''*/*''), (''connection'', ''keep-alive''),
                         (''content-type'', ''application/x-www-form-urlencoded''),
                         (''user-agent'', ''AnyConn/0.0.1'')],
              body = ''a%20b=c%26d''\<rparr>\<close>
proof -
  have ev: \<open>request_build no_parser example_ambient (example_post (JRecord [(''a b'', SStr ''c&d'')]) (Some Form))
       = Inr \<lparr>via = HTTP, target = example_url, verb = POST,
              headers = [(''accept'', ''*/*''), (''connection'', ''keep-alive''),
                         (''content-type'', ''application/x-www-form-urlencoded''),
                         (''user-agent'', ''AnyConn/0.0.1'')],
              body = ''a%20b=c%26d''\<rparr>\<close>
    by code_simp
  have fb: \<open>form_body [(''a b'', SStr ''c&d'')] = ''a%20b=c%26d''\<close>
    by code_simp
  show ?thesis
    using post_form_body [of "example_post (JRecord [(''a b'', SStr ''c&d'')]) (Some Form)"
        "[(''a b'', SStr ''c&d'')]" no_parser example_url example_ambient] ev fb
    by (simp add: example_post_def to_uri_def)
qed

text \<open>
  Claim C4. A POST with a mapping as data and dataType \<^verbatim>\<open>formdata\<close>: the boundary is
  \<^verbatim>\<open>AnyConn\<close>, then the timestamp in base 36, then the two random texts without their
  first two characters; when the timestamp is not negative and the random texts are
  \<^verbatim>\<open>0.\<close> and a fraction, it is \<^verbatim>\<open>AnyConn\<close>, a base-36 numeral whose value is the
  timestamp, and the two fractions. The body is the UTF-8 bytes of one part
  \<^verbatim>\<open>--boundary\n Content-Disposition: form-data; name="key"\n\n value\n\<close> for each pair, in
  order, closed by \<^verbatim>\<open>--boundary--\<close>; it is written; and the \<^verbatim>\<open>content-type\<close> that
  goes out is \<^verbatim>\<open>multipart/form-data; boundary=\<close> and that same boundary.
\<close>

theorem post_formdata_body:
  assumes "httpMethod opts = Some POST" and "data opts = JRecord es"
    and "dataType opts = Some Formdata"
    and "to_uri parse (url opts) = Inr uri"
  shows "\<exists>out b. request_build parse a opts = Inr out
           \<and> b = ''AnyConn'' @ number_toString 36 (Date_now a)
                  @ drop 2 (random_text1 a) @ drop 2 (random_text2 a)
           \<and> (0 \<le> Date_now a \<and> random_text1 a = ''0.'' @ f1 \<and> random_text2 a = ''0.'' @ f2 \<longrightarrow>
                (\<exists>ts. b = ''AnyConn'' @ ts @ f1 @ f2 \<and> radix_value 36 ts = nat (Date_now a)))
           \<and> body out = Buffer_from (multipart_body b es)
           \<and> written out = Some (body out)
           \<and> map_of (headers out) ''content-type'' = Some (''multipart/form-data; boundary='' @ b)
           \<and> (\<forall>k. k \<noteq> ''content-type'' \<longrightarrow>
                 map_of (headers out) k = map_of (formatHeader (header opts)) k)"
proof -
  let ?b = "boundary_token a"
  have b: "?b = ''AnyConn'' @ number_toString 36 (Date_now a)
                  @ drop 2 (random_text1 a) @ drop 2 (random_text2 a)"
    by (simp add: boundary_token_def)
  have ts: "\<exists>ts. ?b = ''AnyConn'' @ ts @ f1 @ f2 \<and> radix_value 36 ts = nat (Date_now a)"
    if "0 \<le> Date_now a" "random_text1 a = ''0.'' @ f1" "random_text2 a = ''0.'' @ f2"
    using that radix_value_digits [of 36 "nat (Date_now a)"]
    by (simp add: boundary_token_def number_toString_def)
  have ne: "Buffer_from (multipart_body ?b es) \<noteq> []"
    by (rule Buffer_from_nonempty) (simp add: multipart_body_def)
  have out: "request_build parse a opts =
    Inr \<lparr>via = (if protocol uri = ''https:'' then HTTPS else HTTP), target = uri, verb = POST,
         headers = obj_set (formatHeader (header opts)) ''content-type''
                     (''multipart/form-data; boundary='' @ ?b),
         body = Buffer_from (multipart_body ?b es)\<rparr>"
    using assms(3) post_build [OF assms(1,2,4), of a]
    by (simp add: Let_def multipart_body_def multipart_parts_concat [symmetric])
  show ?thesis
    using b ts ne by (simp add: out written_def map_of_obj_set)
qed

text \<open>The theorem at the data \<^verbatim>\<open>{k: "v"}\<close>, with the example clock and random texts.\<close>

theorem post_formdata_body_witness:
  \<open>httpMethod (example_post (JRecord [(''k'', SStr ''v'')]) (Some Formdata)) = Some POST
   \<and> dataType (example_post (JRecord [(''k'', SStr ''v'')]) (Some Formdata)) = Some Formdata
   \<and> to_uri no_parser (url (example_post (JRecord [(''k'', SStr ''v'')]) (Some Formdata))) = Inr example_url
   \<and> 0 \<le> Date_now example_ambient
   \<and> random_text1 example_ambient = ''0.'' @ ''4fzyo82mvyr''
   \<and> random_text2 example_ambient = ''0.'' @ ''9x8b7c''
   \<and> boundary_token example_ambient = ''AnyConn'' @ ''loyw3v28'' @ ''4fzyo82mvyr'' @ ''9x8b7c''
   \<and> radix_value 36 ''loyw3v28'' = 1700000000000
   \<and> request_build no_parser example_ambient (example_post (JRecord [(''k'', SStr ''v'')]) (Some Formdata))
       = Inr \<lparr>via = HTTP, target = example_url, verb = POST,
              headers = [(''accept'', ''*/*''), (''connection'', ''keep-alive''),
                         (''content-type'', ''multipart/form-data; boundary=AnyConnloyw3v284fzyo82mvyr9x8b7c''),
                         (''user-agent'', ''AnyConn/0.0.1'')],
              body = ''--AnyConnloyw3v284fzyo82mvyr9x8b7c\<newline>''
                     @ ''Content-Disposition: form-data; name="k"\<newline>\<newline>''
                     @ ''v\<newline>''
                     @ ''--AnyConnloyw3v284fzyo82mvyr9x8b7c--''\<rparr>\<close>
proof -
  have bt: "boundary_token example_ambient = ''AnyConnloyw3v284fzyo82mvyr9x8b7c''"
    by (simp add: boundary_token_def example_ambient_def number_toString_def
        radix_digits_small radix_digits_step digit36_def)
  have rv: "radix_value 36 ''loyw3v28'' = 1700000000000"
    by (simp add: radix_value_def digit_value_def)
  have hs: "formatHeader (JRecord [(''content-type'', SStr ''text/plain'')])
              = [(''accept'', ''*/*''), (''connection'', ''keep-alive''),
                 (''content-type'', ''text/plain''), (''user-agent'', ''AnyConn/0.0.1'')]"
    by code_simp
  have bf: \<open>Buffer_from (''--AnyConnloyw3v284fzyo82mvyr9x8b7c\<newline>''
                     @ ''Content-Disposition: form-data; name="k"\<newline>\<newline>''
                     @ ''v\<newline>''
                     @ ''--AnyConnloyw3v284fzyo82mvyr9x8b7c--'')
            = ''--AnyConnloyw3v284fzyo82mvyr9x8b7c\<newline>''
                     @ ''Content-Disposition: form-data; name="k"\<newline>\<newline>''
                     @ ''v\<newline>''
                     @ ''--AnyConnloyw3v284fzyo82mvyr9x8b7c--''\<close>
    by code_simp
  show ?thesis
    using post_formdata_body [of "example_post (JRecord [(''k'', SStr ''v'')]) (Some Formdata)"
        "[(''k'', SStr ''v'')]" no_parser example_url example_ambient "''4fzyo82mvyr''" "''9x8b7c''"]
      bt rv bf
    by (simp add: example_post_def to_uri_def hs example_ambient_def example_url_def
        request_build_def)
qed

section \<open>Claims about the query of a GET\<close>

lemma named_set_same: "named k (searchParams_set k v q) = [v]"
  by (induction q) (auto simp: named_def filter_empty_conv)

lemma named_set_other: "k' \<noteq> k \<Longrightarrow> named k' (searchParams_set k v q) = named k' q"
proof (induction q)
  case Nil
  then show ?case by (simp add: named_def)
next
  case (Cons p q)
  have "filter (\<lambda>x. fst x = k') (filter (\<lambda>x. fst x \<noteq> k) q) = filter (\<lambda>x. fst x = k') q"
    using Cons.prems by (auto intro: filter_cong)
  with Cons show ?case by (cases p) (auto simp: named_def)
qed

lemma in_query_keys:
  "k \<in> fst ` set (query_pairs es) \<longleftrightarrow> (\<exists>v. (k, v) \<in> set es \<and> \<not> isInvalidValue v)"
  by (force simp: query_pairs_def)

lemma query_keys_subset: "k \<notin> fst ` set es \<Longrightarrow> k \<notin> fst ` set (query_pairs es)"
  unfolding in_query_keys by (metis fst_conv image_eqI)

lemma named_fold_other:
  "k \<notin> fst ` set (query_pairs es) \<Longrightarrow>
   named k (foldl (\<lambda>q (key, val). if \<not> isInvalidValue val
                                     then searchParams_set key (toString val) q else q) q es)
     = named k q"
proof (induction es arbitrary: q)
  case Nil
  then show ?case by simp
next
  case (Cons p es)
  obtain k' v' where p: "p = (k', v')" by (cases p)
  from Cons.prems have rest: "k \<notin> fst ` set (query_pairs es)"
    by (auto simp: in_query_keys)
  from Cons.prems p have "\<not> isInvalidValue v' \<Longrightarrow> k \<noteq> k'"
    by (auto simp: in_query_keys)
  then show ?case
    using Cons.IH [OF rest] by (simp add: p named_set_other)
qed

lemma named_fold_written:
  "distinct (map fst es) \<Longrightarrow> (k, v) \<in> set es \<Longrightarrow> \<not> isInvalidValue v \<Longrightarrow>
   named k (foldl (\<lambda>q (key, val). if \<not> isInvalidValue val
                                     then searchParams_set key (toString val) q else q) q es)
     = [toString v]"
proof (induction es arbitrary: q)
  case Nil
  then show ?case by simp
next
  case (Cons p es)
  obtain k' v' where p: "p = (k', v')" by (cases p)
  show ?case
  proof (cases "p = (k, v)")
    case True
    with Cons.prems have "k \<notin> fst ` set es" by auto
    then have "k \<notin> fst ` set (query_pairs es)" by (rule query_keys_subset)
    from named_fold_other [OF this] True Cons.prems(3) show ?thesis
      by (simp add: named_set_same)
  next
    case False
    with Cons.prems have "(k, v) \<in> set es" "distinct (map fst es)" by auto
    from Cons.IH [OF this(2) this(1) Cons.prems(3)] show ?thesis by simp
  qed
qed

lemma invalid_not_written:
  "distinct (map fst es) \<Longrightarrow> (k, v) \<in> set es \<Longrightarrow> isInvalidValue v \<Longrightarrow>
   k \<notin> fst ` set (query_pairs es)"
  by (auto simp: in_query_keys dest: eq_key_imp_eq_value)

text \<open>
  Claim C7. A GET (given or by default) with a mapping as data, its keys pairwise
  distinct: a pair whose value is neither \<^verbatim>\<open>null\<close> nor \<^verbatim>\<open>undefined\<close> is set on
  the URL, so that afterwards the query has under that key the string form of the value
  and nothing else, whatever the URL had there before; a pair whose value is
  \<^verbatim>\<open>null\<close> or \<^verbatim>\<open>undefined\<close> is skipped, and a name that is no key of the data is
  not touched: the query has under it what the URL had. The rest of the URL is unchanged,
  the body is empty and nothing is written.
\<close>

theorem get_data_as_query:
  assumes "httpMethod opts = None \<or> httpMethod opts = Some GET" and "data opts = JRecord es"
    and "to_uri parse (url opts) = Inr uri" and "distinct (map fst es)"
  shows "\<exists>out. request_build parse a opts = Inr out
           \<and> verb out = GET \<and> body out = [] \<and> written out = None
           \<and> target out = uri\<lparr>searchParams := searchParams (target out)\<rparr>
           \<and> ((k, v) \<in> set es \<and> \<not> isInvalidValue v \<longrightarrow>
                 named k (searchParams (target out)) = [toString v])
           \<and> ((k, v) \<in> set es \<and> isInvalidValue v \<longrightarrow>
                 named k (searchParams (target out)) = named k (searchParams uri))
           \<and> (k \<notin> fst ` set es \<longrightarrow>
                 named k (searchParams (target out)) = named k (searchParams uri))"
proof -
  let ?q = "foldl (\<lambda>q (key, val). if \<not> isInvalidValue val
                                     then searchParams_set key (toString val) q else q)
              (searchParams uri) es"
  have out: "request_build parse a opts =
    Inr \<lparr>via = (if protocol uri = ''https:'' then HTTPS else HTTP),
         target = uri\<lparr>searchParams := ?q\<rparr>, verb = GET,
         headers = formatHeader (header opts), body = []\<rparr>"
    using assms(1-3) by (auto simp: request_build_def Let_def)
  have w: "(k, v) \<in> set es \<and> \<not> isInvalidValue v \<longrightarrow> named k ?q = [toString v]"
    using named_fold_written [OF assms(4)] by blast
  have s: "(k, v) \<in> set es \<and> isInvalidValue v \<longrightarrow> named k ?q = named k (searchParams uri)"
    using named_fold_other invalid_not_written [OF assms(4)] by blast
  have "k \<notin> fst ` set es \<Longrightarrow> k \<notin> fst ` set (query_pairs es)"
    by (rule query_keys_subset)
  then have o: "k \<notin> fst ` set es \<longrightarrow> named k ?q = named k (searchParams uri)"
    using named_fold_other by blast
  show ?thesis
    using w s o by (simp add: out written_def)
qed

text \<open>
  The theorem at the data \<^verbatim>\<open>{a: 1, b: "x", c: null}\<close> and a URL whose query is
  \<^verbatim>\<open>a=0&z=9&a=5\<close>: the query that goes out is \<^verbatim>\<open>a=1&z=9&b=x\<close>.
\<close>

theorem get_data_as_query_witness:
  "httpMethod (example_get (JRecord [(''a'', SNum 1), (''b'', SStr ''x''), (''c'', SNull)])) = None
   \<and> to_uri no_parser (url (example_get (JRecord [(''a'', SNum 1), (''b'', SStr ''x''), (''c'', SNull)])))
       = Inr example_url
   \<and> distinct (map fst [(''a'', SNum 1), (''b'', SStr ''x''), (''c'', SNull)])
   \<and> (''a'', SNum 1) \<in> set [(''a'', SNum 1), (''b'', SStr ''x''), (''c'', SNull)]
   \<and> \<not> isInvalidValue (SNum 1)
   \<and> (''c'', SNull) \<in> set [(''a'', SNum 1), (''b'', SStr ''x''), (''c'', SNull)]
   \<and> isInvalidValue SNull
   \<and> ''z'' \<notin> fst ` set [(''a'', SNum 1), (''b'', SStr ''x''), (''c'', SNull)]
   \<and> searchParams example_url = [(''a'', ''0''), (''z'', ''9''), (''a'', ''5'')]
   \<and> request_build no_parser example_ambient
         (example_get (JRecord [(''a'', SNum 1), (''b'', SStr ''x''), (''c'', SNull)]))
       = Inr \<lparr>via = HTTP,
              target = example_url\<lparr>searchParams := [(''a'', ''1''), (''z'', ''9''), (''b'', ''x'')]\<rparr>,
              verb = GET,
              headers = [(''accept'', ''*/*''), (''connection'', ''keep-alive''),
                         (''user-agent'', ''AnyConn/0.0.1'')],
              body = []\<rparr>
   \<and> named ''a'' [(''a'', ''1''), (''z'', ''9''), (''b'', ''x'')] = [''1'']
   \<and> named ''c'' [(''a'', ''1''), (''z'', ''9''), (''b'', ''x'')] = []
   \<and> named ''z'' [(''a'', ''1''), (''z'', ''9''), (''b'', ''x'')] = [''9'']"
proof -
  have ev: "request_build no_parser example_ambient
         (example_get (JRecord [(''a'', SNum 1), (''b'', SStr ''x''), (''c'', SNull)]))
       = Inr \<lparr>via = HTTP,
              target = example_url\<lparr>searchParams := [(''a'', ''1''), (''z'', ''9''), (''b'', ''x'')]\<rparr>,
              verb = GET,
              headers = [(''accept'', ''*/*''), (''connection'', ''keep-alive''),
                         (''user-agent'', ''AnyConn/0.0.1'')],
              body = []\<rparr>"
    by code_simp
  note t = get_data_as_query
    [where opts = "example_get (JRecord [(''a'', SNum 1), (''b'', SStr ''x''), (''c'', SNull)])"
       and es = "[(''a'', SNum 1), (''b'', SStr ''x''), (''c'', SNull)]"
       and parse = no_parser and uri = example_url and a = example_ambient]
  show ?thesis
    using t [where k = "''a''" and v = "SNum 1"] t [where k = "''c''" and v = SNull]
      t [where k = "''z''" and v = SNull] ev
    by (simp add: example_get_def to_uri_def example_url_def isInvalidValue_def named_def)
qed

section \<open>Claims about the response\<close>

lemma receive_chunks:
  "foldl (on_res_event P res) st (map OnData cs) = st\<lparr>chunks := chunks st @ cs\<rparr>"
  by (induction cs arbitrary: st) auto

lemma receive_then_end:
  "foldl (on_res_event P res) fresh (map OnData cs @ [OnEnd])
     = request_end P res (fresh\<lparr>chunks := cs\<rparr>)"
  by (simp add: receive_chunks fresh_def)

lemma status_or_0_absent: "status_or_0 c = (case c of None \<Rightarrow> 0 | Some n \<Rightarrow> n)"
  by (simp add: status_or_0_def split: option.splits)

text \<open>
  Claim C9, as amended: the data value is determined for the responses whose body the
  platform can decode (and, for the format \<^verbatim>\<open>json\<close>, parse), not for every completed
  response. A response delivers the chunks \<open>cs\<close> and ends; \<open>t\<close> is the descriptor of
  its \<^verbatim>\<open>content-type\<close> header and \<open>d\<close> the chunks in order of arrival. When the
  format is \<^verbatim>\<open>json\<close> and \<open>d\<close> decodes under the charset of \<open>t\<close> to a text that
  parses, the promise is fulfilled with the parsed value; when the format is not
  \<^verbatim>\<open>json\<close>, the type is \<^verbatim>\<open>text\<close> and \<open>d\<close> decodes, it is fulfilled with the
  decoded text, not parsed; when the format is not \<^verbatim>\<open>json\<close> and the type is not
  \<^verbatim>\<open>text\<close>, it is fulfilled with the bytes \<open>d\<close> as they came. In each case the status
  code of the result is that of the response, or 0 when the response has none, and the
  headers are those of the response. This is the outcome of \<open>request\<close> when the transport
  answers with that response.
\<close>

theorem response_decoding:
  assumes "t = getContentType (res_contentType res)" and "d = concat cs"
    and "final = foldl (on_res_event P res) fresh (map OnData cs @ [OnEnd])"
    and "code = (case res_statusCode res of None \<Rightarrow> 0 | Some n \<Rightarrow> n)"
  shows "(format t = Some ''json'' \<and> Buffer_toString P (charset t) d = Inr s \<and> JSON_parse P s = Inr v \<longrightarrow>
            promise final = Fulfilled \<lparr>statusCode = code, payload = Parsed v,
                                       result_headers = res_headers res\<rparr>
            \<and> uncaught final = None)
       \<and> (format t \<noteq> Some ''json'' \<and> type t = ''text'' \<and> Buffer_toString P (charset t) d = Inr s \<longrightarrow>
            promise final = Fulfilled \<lparr>statusCode = code, payload = Text s,
                                       result_headers = res_headers res\<rparr>
            \<and> uncaught final = None)
       \<and> (format t \<noteq> Some ''json'' \<and> type t \<noteq> ''text'' \<longrightarrow>
            promise final = Fulfilled \<lparr>statusCode = code, payload = Bytes d,
                                       result_headers = res_headers res\<rparr>
            \<and> uncaught final = None)
       \<and> (request_build (new_URL P) a opts = Inr out \<and> net out = Answered res (map OnData cs @ [OnEnd]) \<longrightarrow>
            request P a net opts = (Some out, final))"
  unfolding assms receive_then_end
  by (simp add: request_end_def Let_def fresh_def status_or_0_absent request_def receive_chunks)

text \<open>
  The theorem at three responses: JSON in two chunks, a response with no content type
  and no status code, and an image.
\<close>

theorem response_decoding_witness:
  "getContentType (res_contentType \<lparr>res_statusCode = Some 200,
        res_headers = [(''content-type'', ''application/json; charset=utf-8'')]\<rparr>)
     = \<lparr>type = ''application'', format = Some ''json'', charset = ''utf-8''\<rparr>
   \<and> Buffer_toString example_platform ''utf-8'' (concat [''tr'', ''ue'']) = Inr ''true''
   \<and> JSON_parse example_platform ''true'' = Inr (Some True)
   \<and> promise (foldl (on_res_event example_platform
                 \<lparr>res_statusCode = Some 200,
                  res_headers = [(''content-type'', ''application/json; charset=utf-8'')]\<rparr>)
               fresh (map OnData [''tr'', ''ue''] @ [OnEnd]))
       = Fulfilled \<lparr>statusCode = 200, payload = Parsed (Some True),
                    result_headers = [(''content-type'', ''application/json; charset=utf-8'')]\<rparr>
   \<and> getContentType (res_contentType \<lparr>res_statusCode = None, res_headers = []\<rparr>)
       = \<lparr>type = ''text'', format = Some ''plain'', charset = ''utf-8''\<rparr>
   \<and> Buffer_toString example_platform ''utf-8'' (concat [''hel'', ''lo'']) = Inr ''hello''
   \<and> promise (foldl (on_res_event example_platform \<lparr>res_statusCode = None, res_headers = []\<rparr>)
               fresh (map OnData [''hel'', ''lo''] @ [OnEnd]))
       = Fulfilled \<lparr>statusCode = 0, payload = Text ''hello'', result_headers = []\<rparr>
   \<and> getContentType (res_contentType \<lparr>res_statusCode = Some 404,
          res_headers = [(''content-type'', ''image/png'')]\<rparr>)
       = \<lparr>type = ''image'', format = Some ''png'', charset = ''utf-8''\<rparr>
   \<and> promise (foldl (on_res_event example_platform
                 \<lparr>res_statusCode = Some 404, res_headers = [(''content-type'', ''image/png'')]\<rparr>)
               fresh (map OnData [[CHR 0x89], ''PNG''] @ [OnEnd]))
       = Fulfilled \<lparr>statusCode = 404, payload = Bytes (CHR 0x89 # ''PNG''),
                    result_headers = [(''content-type'', ''image/png'')]\<rparr>
   \<and> request_build (new_URL example_platform) example_ambient (example_get (JScalar SUndefined))
       = Inr \<lparr>via = HTTP, target = example_url, verb = GET,
              headers = [(''accept'', ''*/*''), (''connection'', ''keep-alive''),
                         (''user-agent'', ''AnyConn/0.0.1'')],
              body = []\<rparr>
   \<and> request example_platform example_ambient
         (\<lambda>out. Answered \<lparr>res_statusCode = None, res_headers = []\<rparr> (map OnData [''hel'', ''lo''] @ [OnEnd]))
         (example_get (JScalar SUndefined))
       = (Some \<lparr>via = HTTP, target = example_url, verb = GET,
                headers = [(''accept'', ''*/*''), (''connection'', ''keep-alive''),
                           (''user-agent'', ''AnyConn/0.0.1'')],
                body = []\<rparr>,
          \<lparr>chunks = [''hel'', ''lo''],
           promise = Fulfilled \<lparr>statusCode = 0, payload = Text ''hello'', result_headers = []\<rparr>,
           uncaught = None\<rparr>)"
proof -
  have t1: "getContentType (res_contentType \<lparr>res_statusCode = Some 200,
        res_headers = [(''content-type'', ''application/json; charset=utf-8'')]\<rparr>)
     = \<lparr>type = ''application'', format = Some ''json'', charset = ''utf-8''\<rparr>"
    by code_simp
  have t2: "getContentType (res_contentType \<lparr>res_statusCode = None, res_headers = []\<rparr>)
       = \<lparr>type = ''text'', format = Some ''plain'', charset = ''utf-8''\<rparr>"
    by code_simp
  have t3: "getContentType (res_contentType \<lparr>res_statusCode = Some 404,
          res_headers = [(''content-type'', ''image/png'')]\<rparr>)
       = \<lparr>type = ''image'', format = Some ''png'', charset = ''utf-8''\<rparr>"
    by code_simp
  have b: "request_build (new_URL example_platform) example_ambient (example_get (JScalar SUndefined))
       = Inr \<lparr>via = HTTP, target = example_url, verb = GET,
              headers = [(''accept'', ''*/*''), (''connection'', ''keep-alive''),
                         (''user-agent'', ''AnyConn/0.0.1'')],
              body = []\<rparr>"
    by code_simp
  have f2: "foldl (on_res_event example_platform \<lparr>res_statusCode = None, res_headers = []\<rparr>)
               fresh (map OnData [''hel'', ''lo''] @ [OnEnd])
            = \<lparr>chunks = [''hel'', ''lo''],
               promise = Fulfilled \<lparr>statusCode = 0, payload = Text ''hello'', result_headers = []\<rparr>,
               uncaught = None\<rparr>"
    using t2 by (simp add: fresh_def request_end_def example_platform_def status_or_0_def)
  note r = response_decoding [where P = example_platform, OF refl refl refl refl]
  show ?thesis
    using r [where res = "\<lparr>res_statusCode = Some 200,
                  res_headers = [(''content-type'', ''application/json; charset=utf-8'')]\<rparr>"
               and cs = "[''tr'', ''ue'']" and s = "''true''" and v = "Some True"]
      r [where res = "\<lparr>res_statusCode = None, res_headers = []\<rparr>"
           and cs = "[''hel'', ''lo'']" and s = "''hello''"
           and a = example_ambient and opts = "example_get (JScalar SUndefined)"
           and net = "\<lambda>out. Answered \<lparr>res_statusCode = None, res_headers = []\<rparr>
                              (map OnData [''hel'', ''lo''] @ [OnEnd])"
           and out = "\<lparr>via = HTTP, target = example_url, verb = GET,
              headers = [(''accept'', ''*/*''), (''connection'', ''keep-alive''),
                         (''user-agent'', ''AnyConn/0.0.1'')],
              body = []\<rparr>"]
      r [where res = "\<lparr>res_statusCode = Some 404, res_headers = [(''content-type'', ''image/png'')]\<rparr>"
           and cs = "[[CHR 0x89], ''PNG'']"]
      t1 t2 t3 b f2
    by (simp add: example_platform_def)
qed

text \<open>
  Claim C9 as stated, for every completed response, fails. A completed response with
  \<^verbatim>\<open>content-type: text/plain; charset=foo\<close> and a body has no resolved value: the
  decoder throws on the encoding \<^verbatim>\<open>foo\<close>, the exception leaves the listener of
  \<^verbatim>\<open>end\<close> and the promise stays pending.
\<close>

theorem response_decoding_counterexample:
  "getContentType (res_contentType \<lparr>res_statusCode = Some 200,
        res_headers = [(''content-type'', ''text/plain; charset=foo'')]\<rparr>)
     = \<lparr>type = ''text'', format = Some ''plain'', charset = ''foo''\<rparr>
   \<and> Buffer_toString example_platform ''foo'' (concat [''hi''])
       = Inl (TypeError ''Unknown encoding: foo'')
   \<and> foldl (on_res_event example_platform
              \<lparr>res_statusCode = Some 200,
               res_headers = [(''content-type'', ''text/plain; charset=foo'')]\<rparr>)
        fresh (map OnData [''hi''] @ [OnEnd])
       = \<lparr>chunks = [''hi''], promise = Pending,
          uncaught = Some (TypeError ''Unknown encoding: foo'')\<rparr>"
proof -
  have t: "getContentType (res_contentType \<lparr>res_statusCode = Some 200,
        res_headers = [(''content-type'', ''text/plain; charset=foo'')]\<rparr>)
     = \<lparr>type = ''text'', format = Some ''plain'', charset = ''foo''\<rparr>"
    by code_simp
  show ?thesis
    using t by (simp add: example_platform_def fresh_def request_end_def)
qed

text \<open>
  Claim C3 says that a response of format \<^verbatim>\<open>json\<close> whose body is not JSON rejects the
  promise with the parse error. The code does not: the exception of \<^verbatim>\<open>JSON.parse\<close>
  leaves the listener of \<^verbatim>\<open>end\<close>, where nothing catches it, and neither
  \<^verbatim>\<open>resolve\<close> nor \<^verbatim>\<open>reject\<close> is called. The promise stays pending.
\<close>

theorem invalid_json_leaves_promise_pending:
  assumes "t = getContentType (res_contentType res)" and "d = concat cs"
    and "final = foldl (on_res_event P res) fresh (map OnData cs @ [OnEnd])"
    and "format t = Some ''json''"
    and "Buffer_toString P (charset t) d = Inr s" and "JSON_parse P s = Inl e"
  shows "promise final = Pending \<and> uncaught final = Some e \<and> promise final \<noteq> Rejected e"
  using assms(4-6) unfolding assms(1-3) receive_then_end
  by (simp add: request_end_def Let_def fresh_def)

text \<open>The theorem at a response \<^verbatim>\<open>content-type: application/json\<close> with the body \<^verbatim>\<open>{\<close>.\<close>

theorem invalid_json_leaves_promise_pending_witness:
  "getContentType (res_contentType \<lparr>res_statusCode = Some 200,
        res_headers = [(''content-type'', ''application/json'')]\<rparr>)
     = \<lparr>type = ''application'', format = Some ''json'', charset = ''utf-8''\<rparr>
   \<and> Buffer_toString example_platform ''utf-8'' (concat [''{'']) = Inr ''{''
   \<and> JSON_parse example_platform ''{'' = Inl (SyntaxError ''Unexpected token'')
   \<and> foldl (on_res_event example_platform
              \<lparr>res_statusCode = Some 200, res_headers = [(''content-type'', ''application/json'')]\<rparr>)
        fresh (map OnData [''{''] @ [OnEnd])
       = \<lparr>chunks = [''{''], promise = Pending, uncaught = Some (SyntaxError ''Unexpected token'')\<rparr>"
proof -
  have t: "getContentType (res_contentType \<lparr>res_statusCode = Some 200,
        res_headers = [(''content-type'', ''application/json'')]\<rparr>)
     = \<lparr>type = ''application'', format = Some ''json'', charset = ''utf-8''\<rparr>"
    by code_simp
  show ?thesis
    using invalid_json_leaves_promise_pending
      [where P = example_platform
         and res = "\<lparr>res_statusCode = Some 200, res_headers = [(''content-type'', ''application/json'')]\<rparr>"
         and cs = "[''{'']" and s = "''{''" and e = "SyntaxError ''Unexpected token''",
       OF refl refl refl] t
    by (simp add: example_platform_def fresh_def request_end_def)
qed

end
